theory Spec2Isabelle
  imports Complex_Main
begin

section \<open>JavaScript values\<close>

text \<open>
  The values that cross the protocol socket are JSON values; inside the guest a property
  can also hold \<open>undefined\<close>. The finite numbers are the integer-valued ones (\<open>JNum n\<close>),
  beside them stand \<open>NaN\<close> and the two infinities; strings are sequences of UTF-16 code
  units below 256 (one \<open>char\<close> each), and an object is its list of own properties in
  insertion order.
\<close>

datatype nonfinite = NaN | PosInfinity | NegInfinity

datatype jsval =
    JUndefined
  | JNull
  | JBool bool
  | JNum int
  | JNonFinite nonfinite
  | JStr string
  | JArr "jsval list"
  | JObj "(string \<times> jsval) list"

type_synonym jsobj = "(string \<times> jsval) list"

text \<open>\<open>o[k]\<close> on a plain object: the property's value, \<open>undefined\<close> when there is none.\<close>

definition getprop :: "jsobj \<Rightarrow> string \<Rightarrow> jsval" where
  "getprop ps k = (case map_of ps k of None \<Rightarrow> JUndefined | Some v \<Rightarrow> v)"

text \<open>\<open>Object.keys(o).includes(k)\<close> and \<open>o.hasOwnProperty(k)\<close> on a plain object.\<close>

definition hasOwnProperty :: "jsobj \<Rightarrow> string \<Rightarrow> bool" where
  "hasOwnProperty ps k = (k \<in> set (map fst ps))"

text \<open>\<open>o[k] = v\<close>: an existing property keeps its place, a new one goes last.\<close>

fun obj_set :: "jsobj \<Rightarrow> string \<Rightarrow> jsval \<Rightarrow> jsobj" where
  "obj_set [] k v = [(k, v)]"
| "obj_set (p # ps) k v = (if fst p = k then (k, v) # ps else p # obj_set ps k v)"

text \<open>\<open>v.k\<close> on any value but \<open>null\<close> and \<open>undefined\<close>, for a name \<open>k\<close> that no
  string, array, number or boolean has as a property.\<close>

fun field :: "jsval \<Rightarrow> string \<Rightarrow> jsval" where
  "field (JObj ps) k = getprop ps k"
| "field _ k = JUndefined"

fun truthy :: "jsval \<Rightarrow> bool" where
  "truthy JUndefined = False"
| "truthy JNull = False"
| "truthy (JBool b) = b"
| "truthy (JNum n) = (n \<noteq> 0)"
| "truthy (JNonFinite x) = (x \<noteq> NaN)"
| "truthy (JStr s) = (s \<noteq> [])"
| "truthy (JArr xs) = True"
| "truthy (JObj ps) = True"

fun typeof :: "jsval \<Rightarrow> string" where
  "typeof JUndefined = ''undefined''"
| "typeof JNull = ''object''"
| "typeof (JBool b) = ''boolean''"
| "typeof (JNum n) = ''number''"
| "typeof (JNonFinite x) = ''number''"
| "typeof (JStr s) = ''string''"
| "typeof (JArr xs) = ''object''"
| "typeof (JObj ps) = ''object''"

subsection \<open>Number and value to string\<close>

definition digit :: "nat \<Rightarrow> char" where
  "digit d = char_of (48 + d)"

fun nat_digits :: "nat \<Rightarrow> string" where
  "nat_digits n = (if n < 10 then [digit n] else nat_digits (n div 10) @ [digit (n mod 10)])"

declare nat_digits.simps [simp del]

text \<open>\<open>Number.prototype.toString\<close> on an integer (decimal below \<open>10^21\<close> in magnitude,
  which is the range the model is meant for).\<close>

definition int_string :: "int \<Rightarrow> string" where
  "int_string n = (if n < 0 then CHR ''-'' # nat_digits (nat (- n)) else nat_digits (nat n))"

fun join :: "string \<Rightarrow> string list \<Rightarrow> string" where
  "join sep [] = []"
| "join sep [x] = x"
| "join sep (x # y # ys) = x @ sep @ join sep (y # ys)"

text \<open>\<open>String(v)\<close>: an array joins its elements with commas, \<open>null\<close> and
  \<open>undefined\<close> elements giving the empty string.\<close>

fun ToString :: "jsval \<Rightarrow> string" where
  "ToString JUndefined = ''undefined''"
| "ToString JNull = ''null''"
| "ToString (JBool b) = (if b then ''true'' else ''false'')"
| "ToString (JNum n) = int_string n"
| "ToString (JNonFinite x) =
     (case x of NaN \<Rightarrow> ''NaN'' | PosInfinity \<Rightarrow> ''Infinity'' | NegInfinity \<Rightarrow> ''-Infinity'')"
| "ToString (JStr s) = s"
| "ToString (JArr xs) =
     join '','' (map (\<lambda>x. if x = JNull \<or> x = JUndefined then [] else ToString x) xs)"
| "ToString (JObj ps) = ''[object Object]''"

definition is_digit :: "char \<Rightarrow> bool" where
  "is_digit c = (48 \<le> (of_char c :: nat) \<and> (of_char c :: nat) \<le> 57)"

text \<open>\<open>/^\d+$/.test(v)\<close>: the argument is converted to a string first.\<close>

definition isNumericString :: "jsval \<Rightarrow> bool" where
  "isNumericString v = (let s = ToString v in s \<noteq> [] \<and> list_all is_digit s)"

section \<open>Errors\<close>

datatype throttledReason =
    R_duration | R_memory | R_rpcRequest | R_networkRequest | R_download | R_upload | R_storage

text \<open>
  \<open>Error m\<close> is \<open>new Error(m)\<close>; \<open>ResultError m r\<close> is the error of \<open>throwError(m)\<close> in
  \<open>_validateResult\<close>, whose text holds the message and the result \<open>r\<close>; \<open>TypeError\<close> is
  what the runtime raises on a property read of \<open>null\<close> or \<open>undefined\<close> and on a call of
  a non-function; \<open>GuestError name message\<close> is the plain object of an \<open>error\<close> event.
\<close>

datatype error =
    Error string
  | ResultError string jsval
  | TypeError
  | Web3FunctionRuntimeError string throttledReason
  | GuestError jsval string
  | SchemaError_Missing string
  | SchemaError_Invalid string string jsval
  | SchemaError_Unrecognized string string
  | ParsingFailed string string

section \<open>The result validator\<close>

datatype Web3FunctionVersion = V1_0_0 | V2_0_0

text \<open>
  Two functions of the platform are parameters: \<open>isAddress\<close> of the address library, and
  \<open>coerce_ge10 v\<close>, the comparison \<open>v >= 10\<close> on a string, an array or an object (which
  converts \<open>v\<close> to a number first).
\<close>

record platform =
  isAddress :: "jsval \<Rightarrow> bool"
  coerce_ge10 :: "jsval \<Rightarrow> bool"

fun ge10 :: "platform \<Rightarrow> jsval \<Rightarrow> bool" where
  "ge10 pf (JNum n) = (10 \<le> n)"
| "ge10 pf (JNonFinite x) = (x = PosInfinity)"
| "ge10 pf JUndefined = False"
| "ge10 pf JNull = False"
| "ge10 pf (JBool b) = False"
| "ge10 pf v = coerce_ge10 pf v"

text \<open>
  \<open>data.length >= 10 && data.slice(0, 2) === "0x"\<close>. A number or boolean has no
  \<open>length\<close>; an array's \<open>slice\<close> is an array, never \<open>"0x"\<close>; an object that came as
  JSON has no function \<open>slice\<close> to call.
\<close>

fun isValidData :: "platform \<Rightarrow> jsval \<Rightarrow> error + bool" where
  "isValidData pf JUndefined = Inl TypeError"
| "isValidData pf JNull = Inl TypeError"
| "isValidData pf (JStr s) = Inr (10 \<le> length s \<and> take 2 s = ''0x'')"
| "isValidData pf (JArr xs) = Inr False"
| "isValidData pf (JBool b) = Inr False"
| "isValidData pf (JNum n) = Inr False"
| "isValidData pf (JNonFinite x) = Inr False"
| "isValidData pf (JObj ps) =
     (if ge10 pf (getprop ps ''length'') then Inl TypeError else Inr False)"

definition throwError :: "jsval \<Rightarrow> string \<Rightarrow> error + unit" where
  "throwError result message = Inl (ResultError message result)"

definition returnType :: "Web3FunctionVersion \<Rightarrow> string" where
  "returnType version =
     (if version = V1_0_0 then ''{canExec: bool, callData: string}''
      else ''{canExec: bool, callData: {to: string, data: string}[]}'')"

text \<open>The loop \<open>for (const { to, data, value } of result.callData)\<close>.\<close>

fun validateCallData :: "platform \<Rightarrow> jsval \<Rightarrow> jsval list \<Rightarrow> error + unit" where
  "validateCallData pf result [] = Inr ()"
| "validateCallData pf result (entry # rest) =
     (if entry = JNull \<or> entry = JUndefined then Inl TypeError
      else if \<not> isAddress pf (field entry ''to'')
        then throwError result ''returned invalid to address''
      else (case isValidData pf (field entry ''data'') of
          Inl e \<Rightarrow> Inl e
        | Inr ok \<Rightarrow>
            if \<not> ok then throwError result ''returned invalid callData''
            else if truthy (field entry ''value'') \<and> \<not> isNumericString (field entry ''value'')
              then throwError result ''returned invalid value (must be numeric string)''
            else validateCallData pf result rest))"

definition validateObject ::
  "platform \<Rightarrow> Web3FunctionVersion \<Rightarrow> jsobj \<Rightarrow> error + unit" where
  "validateObject pf version ps =
     (let result = JObj ps; canExec = getprop ps ''canExec''; callData = getprop ps ''callData'' in
      if \<not> hasOwnProperty ps ''canExec'' then throwError result ''must return {canExec: bool}''
      else if truthy canExec \<and> \<not> hasOwnProperty ps ''callData''
        then throwError result (''must return '' @ returnType version)
      else if version = V1_0_0 then
        (if truthy canExec then
           (case isValidData pf callData of
              Inl e \<Rightarrow> Inl e
            | Inr ok \<Rightarrow> if \<not> ok then throwError result ''returned invalid callData'' else Inr ())
         else Inr ())
      else
        (if truthy canExec then
           (case callData of
              JArr entries \<Rightarrow> validateCallData pf result entries
            | _ \<Rightarrow> throwError result
                (''must return {canExec: bool, callData: {to: string, data: string}[]}''))
         else Inr ()))"

text \<open>
  \<open>_validateResult\<close>; \<open>validateObject\<close> above is its body on a plain object.
  \<open>Object.keys(result)\<close> raises on \<open>null\<close> and \<open>undefined\<close>; the keys of a string or an
  array are indices and those of a number or boolean are none, so \<open>canExec\<close> is not
  among them.
\<close>

fun validateResult :: "platform \<Rightarrow> Web3FunctionVersion \<Rightarrow> jsval \<Rightarrow> error + unit" where
  "validateResult pf version JUndefined = Inl TypeError"
| "validateResult pf version JNull = Inl TypeError"
| "validateResult pf version (JObj ps) = validateObject pf version ps"
| "validateResult pf version result = throwError result ''must return {canExec: bool}''"

section \<open>The guest agent\<close>

text \<open>
  The user handler is a program over the context facade: it returns a result, throws a
  value (any value can be thrown), reads and writes the storage, reads a secret, or makes
  an RPC call that the proxy answers with HTTP 429, on which \<open>_onRpcRateLimit\<close> ends the
  process with code 250. What the handler computes from the rest of the world is in the
  program itself. A handler that catches the error of a refused \<open>storage.set\<close> is the
  program that goes on without that call.
\<close>

datatype prog =
    Return jsval
  | Throw jsval
  | RpcRateLimit
  | StorageGet string "jsval \<Rightarrow> prog"
  | StorageSet string jsval prog
  | StorageDelete string prog
  | SecretsGet string "jsval \<Rightarrow> prog"

datatype 'a outcome = Returned 'a | Thrown jsval | ProcessExit int

text \<open>An error object as the handlers of the guest read it: by \<open>name\<close> and \<open>message\<close>.\<close>

definition mkError :: "string \<Rightarrow> string \<Rightarrow> jsval" where
  "mkError name message = JObj [(''name'', JStr name), (''message'', JStr message)]"

record Web3FunctionContextData =
  gelatoArgs :: jsobj
  userArgs :: jsobj
  secrets :: jsobj
  storage :: jsobj
  rpcProviderUrl :: jsval
  log :: jsval

record Web3FunctionContext =
  ctx_gelatoArgs :: jsobj
  ctx_gasPrice :: int
  ctx_userArgs :: jsobj
  ctx_log :: jsval

type_synonym runHandler = "Web3FunctionContext \<Rightarrow> prog"

text \<open>The handler's run on the facade \<open>secrets.get\<close>, \<open>storage.get\<close>, \<open>storage.set\<close>
  and \<open>storage.delete\<close>: the storage is \<open>ctxData.storage\<close>, changed in place.\<close>

primrec exec :: "prog \<Rightarrow> jsobj \<Rightarrow> jsobj \<Rightarrow> jsval outcome \<times> jsobj" where
  "exec (Return r) = (\<lambda>sec st. (Returned r, st))"
| "exec (Throw e) = (\<lambda>sec st. (Thrown e, st))"
| "exec RpcRateLimit = (\<lambda>sec st. (ProcessExit 250, st))"
| "exec (StorageGet k f) = (\<lambda>sec st. exec (f (getprop st k)) sec st)"
| "exec (StorageSet k v p) = (\<lambda>sec st.
     if typeof v \<noteq> ''string''
     then (Thrown (mkError ''Error'' ''Web3FunctionStorageError: value must be a string''), st)
     else exec p sec (obj_set st k v))"
| "exec (StorageDelete k p) = (\<lambda>sec st. exec p sec (obj_set st k JUndefined))"
| "exec (SecretsGet k f) = (\<lambda>sec st. exec (f (getprop sec k)) sec st)"

text \<open>
  \<open>_run\<close>. \<open>BigNumber.from\<close> of the big-number library is the parameter \<open>bn\<close> (\<open>Inl\<close>
  what it throws); \<open>onRun\<close> is the registered handler, if any.
\<close>

definition guest_run ::
  "(jsval \<Rightarrow> jsval + int) \<Rightarrow> runHandler option \<Rightarrow> Web3FunctionContextData
     \<Rightarrow> jsval outcome \<times> Web3FunctionContextData" where
  "guest_run bn onRun ctxData =
     (case onRun of
        None \<Rightarrow> (Thrown (mkError ''Error'' ''Web3Function.onRun function is not registered''), ctxData)
      | Some handler \<Rightarrow>
          (case bn (getprop (gelatoArgs ctxData) ''gasPrice'') of
             Inl e \<Rightarrow> (Thrown e, ctxData)
           | Inr gasPrice \<Rightarrow>
               if \<not> truthy (rpcProviderUrl ctxData)
               then (Thrown (mkError ''Error'' ''Missing providerUrl''), ctxData)
               else
                 (let context = \<lparr>ctx_gelatoArgs = gelatoArgs ctxData, ctx_gasPrice = gasPrice,
                        ctx_userArgs = userArgs ctxData,
                        ctx_log = (if truthy (log ctxData) then log ctxData else JUndefined)\<rparr>;
                      (out, st) = exec (handler context) (secrets ctxData) (storage ctxData)
                  in (out, ctxData\<lparr>storage := st\<rparr>))))"

subsection \<open>The storage difference\<close>

text \<open>
  \<open>diff\<close> of the library \<open>deep-object-diff\<close>, on two plain objects whose property
  values are not objects themselves: the keys of \<open>lhs\<close> that \<open>rhs\<close> lacks get \<open>undefined\<close>; a key
  of \<open>rhs\<close> that \<open>lhs\<close> lacks gets the value of \<open>rhs\<close>; a key of both gets the difference of
  the two values unless that is the empty object. On two values that are not both objects
  the difference is \<open>{}\<close> when they are equal and the right one otherwise.
\<close>

definition diff_value :: "jsval \<Rightarrow> jsval \<Rightarrow> jsval" where
  "diff_value lhs rhs = (if lhs = rhs then JObj [] else rhs)"

definition deletedValues :: "jsobj \<Rightarrow> jsobj \<Rightarrow> jsobj" where
  "deletedValues lhs rhs =
     fold (\<lambda>key acc. if hasOwnProperty rhs key then acc else obj_set acc key JUndefined)
       (map fst lhs) []"

definition diff_step :: "jsobj \<Rightarrow> jsobj \<Rightarrow> string \<Rightarrow> jsobj \<Rightarrow> jsobj" where
  "diff_step lhs rhs key acc =
     (if \<not> hasOwnProperty lhs key then obj_set acc key (getprop rhs key)
      else (let difference = diff_value (getprop lhs key) (getprop rhs key)
            in if difference = JObj [] then acc else obj_set acc key difference))"

definition diff :: "jsobj \<Rightarrow> jsobj \<Rightarrow> jsobj" where
  "diff lhs rhs = fold (diff_step lhs rhs) (map fst rhs) (deletedValues lhs rhs)"

subsection \<open>The reply\<close>

record Web3FunctionStorage =
  state :: string
  storage_map :: jsobj
  storage_diff :: jsobj

datatype input_event = Start Web3FunctionContextData | Other string

text \<open>\<open>ResultReply result storage\<close> is the event \<open>{action: "result", data: {result, storage}}\<close>
  and \<open>ErrorReply name message storage\<close> the event \<open>{action: "error", data: {error: {name,
  message}, storage}}\<close>.\<close>

datatype reply =
    ResultReply jsval Web3FunctionStorage
  | ErrorReply jsval string Web3FunctionStorage

text \<open>The loop that rewrites the \<open>undefined\<close> values of the difference to \<open>null\<close>.\<close>

definition undefined_to_null :: "jsobj \<Rightarrow> jsobj" where
  "undefined_to_null difference =
     map (\<lambda>(key, v). (key, if v = JUndefined then JNull else v)) difference"

text \<open>
  \<open>_onFunctionEvent\<close>. The \<open>catch\<close> block reads \<open>error.name\<close> and \<open>error.message\<close> of the
  thrown value, which raises a \<open>TypeError\<close> when that value is \<open>null\<close> or \<open>undefined\<close>;
  the function then throws instead of returning an event.
\<close>

definition onFunctionEvent ::
  "(jsval \<Rightarrow> jsval + int) \<Rightarrow> runHandler option \<Rightarrow> input_event \<Rightarrow> reply outcome" where
  "onFunctionEvent bn onRun event =
     (case event of
        Start context \<Rightarrow>
          (let prevStorage = storage context in
           case guest_run bn onRun context of
             (Returned result, ctxData) \<Rightarrow>
               (let difference = undefined_to_null (diff prevStorage (storage ctxData));
                    st = (if length difference = 0 then ''last'' else ''updated'')
                in Returned (ResultReply result
                     \<lparr>state = st, storage_map = storage ctxData, storage_diff = difference\<rparr>))
           | (Thrown error, ctxData) \<Rightarrow>
               if error = JNull \<or> error = JUndefined
               then Thrown (mkError ''TypeError'' ''Cannot read properties'')
               else Returned (ErrorReply (field error ''name'')
                      (ToString (field error ''name'') @ '': '' @ ToString (field error ''message''))
                      \<lparr>state = ''last'', storage_map = prevStorage, storage_diff = []\<rparr>)
           | (ProcessExit code, ctxData) \<Rightarrow> ProcessExit code)
      | Other action \<Rightarrow>
          Thrown (mkError ''Error'' (''Unrecognized parent process event: '' @ action)))"

subsection \<open>The storage as the supervisor receives it\<close>

text \<open>
  What the supervisor receives of an object: the protocol carries JSON, which leaves out
  a property whose value is \<open>undefined\<close>.
\<close>

definition wire :: "jsobj \<Rightarrow> string \<Rightarrow> jsval option" where
  "wire ps k = (case map_of ps k of
      None \<Rightarrow> None
    | Some v \<Rightarrow> if v = JUndefined then None else Some v)"

text \<open>The specification's reading of a difference: applying it to a map, a \<open>null\<close>
  entry deleting its key.\<close>

definition apply_diff :: "(string \<Rightarrow> jsval option) \<Rightarrow> jsobj \<Rightarrow> string \<Rightarrow> jsval option" where
  "apply_diff m d k = (case map_of d k of
      None \<Rightarrow> m k
    | Some v \<Rightarrow> if v = JNull then None else Some v)"

text \<open>The storage that comes in with the \<open>start\<close> event maps strings to strings.\<close>

definition string_valued :: "jsobj \<Rightarrow> bool" where
  "string_valued ps = list_all (\<lambda>p. typeof (snd p) = ''string'') ps"

section \<open>JSON\<close>

subsection \<open>\<open>JSON.stringify\<close>\<close>

definition hex_digit :: "nat \<Rightarrow> char" where
  "hex_digit d = (if d < 10 then char_of (48 + d) else char_of (87 + d))"

text \<open>The escape of one code unit in a quoted string: the quote, the backslash and the
  control characters are escaped, everything else stands for itself.\<close>

definition quote_char :: "char \<Rightarrow> string" where
  "quote_char c =
     (if c = CHR 0x22 then [CHR 0x5C, CHR 0x22]
      else if c = CHR 0x5C then [CHR 0x5C, CHR 0x5C]
      else if c = CHR 0x08 then [CHR 0x5C, CHR ''b'']
      else if c = CHR 0x0C then [CHR 0x5C, CHR ''f'']
      else if c = CHR 0x0A then [CHR 0x5C, CHR ''n'']
      else if c = CHR 0x0D then [CHR 0x5C, CHR ''r'']
      else if c = CHR 0x09 then [CHR 0x5C, CHR ''t'']
      else if (of_char c :: nat) < 32
        then [CHR 0x5C, CHR ''u'', CHR ''0'', CHR ''0'',
              hex_digit ((of_char c :: nat) div 16), hex_digit ((of_char c :: nat) mod 16)]
      else [c])"

definition quote :: "string \<Rightarrow> string" where
  "quote s = CHR 0x22 # concat (map quote_char s) @ [CHR 0x22]"

text \<open>
  \<open>stringify v\<close> is \<open>JSON.stringify(v)\<close>, \<open>None\<close> when that is \<open>undefined\<close>. A number
  that is not finite is written \<open>null\<close>. In an array an \<open>undefined\<close> element is written
  \<open>null\<close>; in an object a property whose value is \<open>undefined\<close> is left out.
\<close>

fun stringify :: "jsval \<Rightarrow> string option" where
  "stringify JUndefined = None"
| "stringify JNull = Some ''null''"
| "stringify (JBool b) = Some (if b then ''true'' else ''false'')"
| "stringify (JNum n) = Some (int_string n)"
| "stringify (JNonFinite x) = Some ''null''"
| "stringify (JStr s) = Some (quote s)"
| "stringify (JArr xs) =
     Some (''['' @ join '','' (map (\<lambda>x. case stringify x of None \<Rightarrow> ''null'' | Some t \<Rightarrow> t) xs) @ '']'')"
| "stringify (JObj ps) =
     Some (''{'' @ join '',''
        (concat (map (\<lambda>p. case stringify (snd p) of
                         None \<Rightarrow> []
                       | Some t \<Rightarrow> [quote (fst p) @ '':'' @ t]) ps)) @ ''}'')"

text \<open>\<open>Buffer.byteLength(s, "utf-8")\<close>: a code unit below 128 is one byte, one from 128
  to 255 is two.\<close>

definition byteLength :: "string \<Rightarrow> nat" where
  "byteLength s = sum_list (map (\<lambda>c. if (of_char c :: nat) < 128 then 1 else 2) s)"

subsection \<open>\<open>JSON.parse\<close>\<close>

text \<open>
  \<open>JSON.parse\<close> on the values of the model: the literals, integer numbers (a fraction
  or an exponent is outside the model and is refused), strings with their escapes (an
  escape \<open>\uXXXX\<close> above 255 is outside the model), arrays and objects, with white space
  between the tokens. \<open>None\<close> is the \<open>SyntaxError\<close>. The recursion on nested values runs
  on fuel, which \<open>JSON_parse\<close> sets from the length of the text.
\<close>

definition is_ws :: "char \<Rightarrow> bool" where
  "is_ws c = (c = CHR 0x20 \<or> c = CHR 0x09 \<or> c = CHR 0x0A \<or> c = CHR 0x0D)"

definition skip_ws :: "string \<Rightarrow> string" where
  "skip_ws s = dropWhile is_ws s"

definition unhex :: "char \<Rightarrow> nat option" where
  "unhex c =
     (let n = (of_char c :: nat) in
      if 48 \<le> n \<and> n \<le> 57 then Some (n - 48)
      else if 97 \<le> n \<and> n \<le> 102 then Some (n - 87)
      else if 65 \<le> n \<and> n \<le> 70 then Some (n - 55)
      else None)"

definition hex4 :: "char \<Rightarrow> char \<Rightarrow> char \<Rightarrow> char \<Rightarrow> nat option" where
  "hex4 a b c d =
     (case (unhex a, unhex b, unhex c, unhex d) of
        (Some x, Some y, Some z, Some w) \<Rightarrow> Some (4096 * x + 256 * y + 16 * z + w)
      | _ \<Rightarrow> None)"

definition unescape :: "char \<Rightarrow> char option" where
  "unescape e =
     (if e = CHR 0x22 then Some (CHR 0x22)
      else if e = CHR 0x5C then Some (CHR 0x5C)
      else if e = CHR ''/'' then Some (CHR ''/'')
      else if e = CHR ''b'' then Some (CHR 0x08)
      else if e = CHR ''f'' then Some (CHR 0x0C)
      else if e = CHR ''n'' then Some (CHR 0x0A)
      else if e = CHR ''r'' then Some (CHR 0x0D)
      else if e = CHR ''t'' then Some (CHR 0x09)
      else None)"

text \<open>The characters of a string after its opening quote, up to the closing one.\<close>

fun parse_chars :: "string \<Rightarrow> (string \<times> string) option" where
  "parse_chars [] = None"
| "parse_chars (c # cs) =
     (if c = CHR 0x22 then Some ([], cs)
      else if c = CHR 0x5C then
        (case cs of
           [] \<Rightarrow> None
         | e # r \<Rightarrow>
             if e = CHR ''u'' then
               (case r of
                  a # b # c' # d # r' \<Rightarrow>
                    (case hex4 a b c' d of
                       None \<Rightarrow> None
                     | Some code \<Rightarrow>
                         if code < 256
                         then map_option (\<lambda>p. (char_of code # fst p, snd p)) (parse_chars r')
                         else None)
                | _ \<Rightarrow> None)
             else
               (case unescape e of
                  None \<Rightarrow> None
                | Some x \<Rightarrow> map_option (\<lambda>p. (x # fst p, snd p)) (parse_chars r)))
      else if (of_char c :: nat) < 32 then None
      else map_option (\<lambda>p. (c # fst p, snd p)) (parse_chars cs))"

definition digits_value :: "string \<Rightarrow> nat" where
  "digits_value ds = foldl (\<lambda>a c. 10 * a + ((of_char c :: nat) - 48)) 0 ds"

definition parse_number :: "string \<Rightarrow> (jsval \<times> string) option" where
  "parse_number s =
     (let negative = (s \<noteq> [] \<and> hd s = CHR ''-'');
          s1 = (if negative then tl s else s);
          ds = takeWhile is_digit s1;
          rest = dropWhile is_digit s1
      in if ds = [] \<or> (hd ds = CHR ''0'' \<and> 1 < length ds) then None
         else if rest \<noteq> [] \<and> (hd rest = CHR ''.'' \<or> hd rest = CHR ''e'' \<or> hd rest = CHR ''E'')
           then None
         else Some (JNum (if negative then - int (digits_value ds) else int (digits_value ds)), rest))"

definition parse_literal :: "string \<Rightarrow> (jsval \<times> string) option" where
  "parse_literal s =
     (if take 4 s = ''null'' then Some (JNull, drop 4 s)
      else if take 4 s = ''true'' then Some (JBool True, drop 4 s)
      else if take 5 s = ''false'' then Some (JBool False, drop 5 s)
      else None)"

text \<open>
  \<open>parse_value\<close> reads one value at the head of the text; \<open>parse_elements\<close> reads the
  elements of a non-empty array up to its closing bracket, \<open>parse_members\<close> the members of
  a non-empty object up to its closing brace. A key written twice keeps its last value.
\<close>

fun parse_value :: "nat \<Rightarrow> string \<Rightarrow> (jsval \<times> string) option"
  and parse_elements :: "nat \<Rightarrow> string \<Rightarrow> (jsval list \<times> string) option"
  and parse_members :: "nat \<Rightarrow> string \<Rightarrow> (jsobj \<times> string) option" where
  "parse_value 0 s = None"
| "parse_value (Suc n) s =
     (case s of
        [] \<Rightarrow> None
      | c # cs \<Rightarrow>
          if c = CHR ''['' then
            (case skip_ws cs of
               [] \<Rightarrow> None
             | c' # r \<Rightarrow>
                 if c' = CHR '']'' then Some (JArr [], r)
                 else map_option (\<lambda>p. (JArr (fst p), snd p)) (parse_elements n (c' # r)))
          else if c = CHR ''{'' then
            (case skip_ws cs of
               [] \<Rightarrow> None
             | c' # r \<Rightarrow>
                 if c' = CHR ''}'' then Some (JObj [], r)
                 else map_option (\<lambda>p. (JObj (fst p), snd p)) (parse_members n (c' # r)))
          else if c = CHR 0x22 then map_option (\<lambda>p. (JStr (fst p), snd p)) (parse_chars cs)
          else if c = CHR ''-'' \<or> is_digit c then parse_number s
          else parse_literal s)"
| "parse_elements 0 s = None"
| "parse_elements (Suc n) s =
     (case parse_value n s of
        None \<Rightarrow> None
      | Some (v, r) \<Rightarrow>
          (case skip_ws r of
             [] \<Rightarrow> None
           | c # r' \<Rightarrow>
               if c = CHR '','' then
                 map_option (\<lambda>p. (v # fst p, snd p)) (parse_elements n (skip_ws r'))
               else if c = CHR '']'' then Some ([v], r')
               else None))"
| "parse_members 0 s = None"
| "parse_members (Suc n) s =
     (case s of
        [] \<Rightarrow> None
      | q # cs \<Rightarrow>
          if q \<noteq> CHR 0x22 then None
          else
            (case parse_chars cs of
               None \<Rightarrow> None
             | Some (key, r) \<Rightarrow>
                 (case skip_ws r of
                    [] \<Rightarrow> None
                  | colon # r1 \<Rightarrow>
                      if colon \<noteq> CHR '':'' then None
                      else
                        (case parse_value n (skip_ws r1) of
                           None \<Rightarrow> None
                         | Some (v, r2) \<Rightarrow>
                             (case skip_ws r2 of
                                [] \<Rightarrow> None
                              | c # r3 \<Rightarrow>
                                  if c = CHR '','' then
                                    map_option
                                      (\<lambda>p. ((key, (case map_of (fst p) key of None \<Rightarrow> v | Some v' \<Rightarrow> v'))
                                              # filter (\<lambda>m. fst m \<noteq> key) (fst p), snd p))
                                      (parse_members n (skip_ws r3))
                                  else if c = CHR ''}'' then Some ([(key, v)], r3)
                                  else None)))))"


section \<open>The runner\<close>

text \<open>
  The options, the counters and the report of \<open>run\<close>. Sizes and limits are rational
  numbers; the fields of the report carry the prefix \<open>exec_\<close> and those of its
  \<open>throttled\<close> record the prefix \<open>t_\<close>, a flag being \<open>None\<close> while it is not assigned.
\<close>

datatype runtime = thread | docker

record Web3FunctionRunnerOptions =
  runtime :: runtime
  memory :: rat
  timeout :: rat
  rpcLimit :: rat
  requestLimit :: rat
  downloadLimit :: rat
  uploadLimit :: rat
  storageLimit :: rat

record Web3FunctionStorageWithSize = Web3FunctionStorage +
  storage_size :: rat

record Web3FunctionThrottled =
  t_duration :: "bool option"
  t_memory :: "bool option"
  t_rpcRequest :: "bool option"
  t_networkRequest :: "bool option"
  t_download :: "bool option"
  t_upload :: "bool option"
  t_storage :: "bool option"

record networkStats =
  nbRequests :: nat
  nbThrottled :: nat
  download :: rat
  upload :: rat

record rpcCalls =
  total_calls :: nat
  throttled_calls :: nat

text \<open>What \<open>run\<close> reads from its collaborators once the sandbox has stopped.\<close>

record observed =
  obs_logs :: "string list"
  obs_duration :: rat
  obs_rpcCalls :: rpcCalls
  obs_network :: networkStats

record Web3FunctionExec =
  exec_success :: bool
  exec_version :: Web3FunctionVersion
  exec_result :: "jsval option"
  exec_storage :: "Web3FunctionStorageWithSize option"
  exec_error :: "error option"
  exec_logs :: "string list"
  exec_duration :: rat
  exec_memory :: rat
  exec_rpcCalls :: rpcCalls
  exec_network :: networkStats
  exec_throttled :: Web3FunctionThrottled

subsection \<open>\<open>_runInSandbox\<close>\<close>

record sandbox_data =
  data_result :: jsval
  data_storage :: Web3FunctionStorage

text \<open>
  What can happen while \<open>_runInSandbox\<close> waits: an \<open>output_event\<close> of the guest (a
  result, an error with its name and message, or another action), the execution timeout,
  the end of the sandbox process with its exit code, the end of the 100 ms delay that
  follows it, and a sample of the memory monitor.
\<close>

datatype sandbox_event =
    ResultEvent sandbox_data
  | ErrorEvent jsval string
  | UnknownEvent string
  | ExecTimeout
  | ProcessEnd int
  | DelayElapsed
  | MemorySample rat

text \<open>
  \<open>settled\<close> is the state of the promise that \<open>_runInSandbox\<close> returns (the first
  \<open>resolve\<close> or \<open>reject\<close> wins), \<open>exitSignal\<close> the exit code whose delay is running,
  \<open>processEnded\<close> whether the process has ended (its promise resolves once), and
  \<open>rs_memory\<close> the field \<open>_memory\<close>.
\<close>

record runner_state =
  isResolved :: bool
  settled :: "(error + sandbox_data) option"
  exitSignal :: "int option"
  processEnded :: bool
  rs_memory :: rat

definition settle :: "error + sandbox_data \<Rightarrow> runner_state \<Rightarrow> runner_state" where
  "settle x st = (case settled st of None \<Rightarrow> st\<lparr>settled := Some x\<rparr> | Some y \<Rightarrow> st)"

text \<open>The error for an exit code, read when the delay has elapsed with no result.\<close>

definition exit_error :: "Web3FunctionRunnerOptions \<Rightarrow> rat \<Rightarrow> int \<Rightarrow> error" where
  "exit_error options mem signal =
     (if signal = 0 then Error ''Web3Function exited without returning result''
      else if signal = 250
        then Web3FunctionRuntimeError
               (''Web3Function exited with code='' @ int_string signal @ '' (RPC requests limit exceeded)'')
               R_rpcRequest
      else if (runtime options = docker \<and> signal = 137) \<or>
              (runtime options = thread \<and> memory options \<le> mem)
        then Web3FunctionRuntimeError
               (''Web3Function exited with code='' @ int_string signal @ '' (Memory limit exceeded)'')
               R_memory
      else Error (''Web3Function exited with code='' @ int_string signal))"

fun on_event :: "Web3FunctionRunnerOptions \<Rightarrow> sandbox_event \<Rightarrow> runner_state \<Rightarrow> runner_state" where
  "on_event options (ResultEvent d) st = settle (Inr d) (st\<lparr>isResolved := True\<rparr>)"
| "on_event options (ErrorEvent name message) st =
     settle (Inl (GuestError name message)) (st\<lparr>isResolved := True\<rparr>)"
| "on_event options (UnknownEvent action) st = st"
| "on_event options ExecTimeout st =
     settle (Inl (Web3FunctionRuntimeError ''Web3Function exceed execution timeout'' R_duration)) st"
| "on_event options (ProcessEnd signal) st =
     (if processEnded st then st
      else if isResolved st then st\<lparr>processEnded := True\<rparr>
      else st\<lparr>processEnded := True, exitSignal := Some signal\<rparr>)"
| "on_event options DelayElapsed st =
     (case exitSignal st of
        None \<Rightarrow> st
      | Some signal \<Rightarrow>
          if isResolved st then st\<lparr>exitSignal := None\<rparr>
          else settle (Inl (exit_error options (rs_memory st) signal)) (st\<lparr>exitSignal := None\<rparr>))"
| "on_event options (MemorySample liveMemory) st =
     (if liveMemory \<noteq> 0 \<and> rs_memory st < liveMemory then st\<lparr>rs_memory := liveMemory\<rparr> else st)"

definition initial_state :: runner_state where
  "initial_state =
     \<lparr>isResolved = False, settled = None, exitSignal = None, processEnded = False, rs_memory = 0\<rparr>"

text \<open>How the start went: \<open>sandbox.start\<close> threw, the connection to the guest failed, or
  the \<open>start\<close> message was sent.\<close>

datatype startup = StartFailed string | ConnectFailed string | Started

text \<open>\<open>_runInSandbox\<close> on a start and the events that follow it: how the promise is
  settled (\<open>None\<close> when nothing settles it) and the memory seen.\<close>

definition runInSandbox ::
  "Web3FunctionRunnerOptions \<Rightarrow> startup \<Rightarrow> sandbox_event list
     \<Rightarrow> (error + sandbox_data) option \<times> rat" where
  "runInSandbox options start events =
     (case start of
        StartFailed message \<Rightarrow>
          (Some (Inl (Error (''Web3Function failed to start sandbox: '' @ message))), 0)
      | ConnectFailed message \<Rightarrow>
          (Some (Inl (Error ''Web3Function start-up timeout (5s)'')), 0)
      | Started \<Rightarrow>
          (let st = fold (on_event options) events initial_state
           in (settled st, rs_memory st)))"

subsection \<open>\<open>run\<close>\<close>

definition storage_to_js :: "Web3FunctionStorage \<Rightarrow> jsval" where
  "storage_to_js s =
     JObj [(''state'', JStr (state s)), (''storage'', JObj (storage_map s)),
           (''diff'', JObj (storage_diff s))]"

text \<open>\<open>{...data.storage, size: Buffer.byteLength(JSON.stringify(data.storage), "utf-8") / 1024}\<close>\<close>

definition with_size :: "Web3FunctionStorage \<Rightarrow> error + Web3FunctionStorageWithSize" where
  "with_size s =
     (case stringify (storage_to_js s) of
        None \<Rightarrow> Inl TypeError
      | Some text \<Rightarrow>
          Inr \<lparr>state = state s, storage_map = storage_map s, storage_diff = storage_diff s,
               storage_size = of_nat (byteLength text) / 1024\<rparr>)"

definition no_throttle :: Web3FunctionThrottled where
  "no_throttle = \<lparr>t_duration = None, t_memory = None, t_rpcRequest = None,
     t_networkRequest = None, t_download = None, t_upload = None, t_storage = None\<rparr>"

text \<open>\<open>throttled[error.throttledReason] = true\<close>\<close>

fun set_reason :: "throttledReason \<Rightarrow> Web3FunctionThrottled \<Rightarrow> Web3FunctionThrottled" where
  "set_reason R_duration t = t\<lparr>t_duration := Some True\<rparr>"
| "set_reason R_memory t = t\<lparr>t_memory := Some True\<rparr>"
| "set_reason R_rpcRequest t = t\<lparr>t_rpcRequest := Some True\<rparr>"
| "set_reason R_networkRequest t = t\<lparr>t_networkRequest := Some True\<rparr>"
| "set_reason R_download t = t\<lparr>t_download := Some True\<rparr>"
| "set_reason R_upload t = t\<lparr>t_upload := Some True\<rparr>"
| "set_reason R_storage t = t\<lparr>t_storage := Some True\<rparr>"

text \<open>The failure arm: only a \<open>Web3FunctionRuntimeError\<close> carries a reason.\<close>

fun error_throttle :: "error \<Rightarrow> Web3FunctionThrottled \<Rightarrow> Web3FunctionThrottled" where
  "error_throttle (Web3FunctionRuntimeError message reason) t = set_reason reason t"
| "error_throttle err t = t"

definition network_throttle ::
  "Web3FunctionRunnerOptions \<Rightarrow> networkStats \<Rightarrow> Web3FunctionThrottled" where
  "network_throttle options stats =
     (if 0 < nbThrottled stats
      then no_throttle\<lparr>
        t_networkRequest := Some (requestLimit options \<le> of_nat (nbRequests stats)),
        t_download := Some (downloadLimit options / 1024 \<le> download stats),
        t_upload := Some (uploadLimit options / 1024 \<le> upload stats)\<rparr>
      else no_throttle)"

text \<open>The \<open>try\<close> block of \<open>run\<close>: the sandbox's data, validated and sized.\<close>

definition attempt ::
  "platform \<Rightarrow> Web3FunctionVersion \<Rightarrow> error + sandbox_data
     \<Rightarrow> error + jsval \<times> Web3FunctionStorageWithSize" where
  "attempt pf version outcome =
     (case outcome of
        Inl err \<Rightarrow> Inl err
      | Inr data \<Rightarrow>
          (case validateResult pf version (data_result data) of
             Inl err \<Rightarrow> Inl err
           | Inr u \<Rightarrow>
               (case with_size (data_storage data) of
                  Inl err \<Rightarrow> Inl err
                | Inr s \<Rightarrow> Inr (data_result data, s))))"

text \<open>\<open>run\<close>: \<open>None\<close> when the promise of \<open>_runInSandbox\<close> is never settled.\<close>

definition run ::
  "platform \<Rightarrow> Web3FunctionVersion \<Rightarrow> Web3FunctionRunnerOptions \<Rightarrow> startup
     \<Rightarrow> sandbox_event list \<Rightarrow> observed \<Rightarrow> Web3FunctionExec option" where
  "run pf version options start events obs =
     (case runInSandbox options start events of
        (None, mem) \<Rightarrow> None
      | (Some outcome, mem) \<Rightarrow>
          (let t1 = network_throttle options (obs_network obs) in
           case attempt pf version outcome of
             Inr (result, s) \<Rightarrow>
               Some \<lparr>exec_success = True, exec_version = version, exec_result = Some result,
                  exec_storage = Some s, exec_error = None, exec_logs = obs_logs obs,
                  exec_duration = obs_duration obs, exec_memory = mem / 1024 / 1024,
                  exec_rpcCalls = obs_rpcCalls obs, exec_network = obs_network obs,
                  exec_throttled =
                    (if state s = ''updated''
                     then t1\<lparr>t_storage := Some (storageLimit options < storage_size s)\<rparr>
                     else t1)\<rparr>
           | Inl err \<Rightarrow>
               Some \<lparr>exec_success = False, exec_version = version, exec_result = None,
                  exec_storage = None, exec_error = Some err, exec_logs = obs_logs obs,
                  exec_duration = obs_duration obs, exec_memory = mem / 1024 / 1024,
                  exec_rpcCalls = obs_rpcCalls obs, exec_network = obs_network obs,
                  exec_throttled = error_throttle err t1\<rparr>))"

section \<open>The user arguments\<close>










section \<open>Example inputs\<close>

definition example_platform :: platform where
  "example_platform =
     \<lparr>isAddress = (\<lambda>v. v = JStr ''0x0000000000000000000000000000000000000001''),
      coerce_ge10 = (\<lambda>v. False)\<rparr>"

definition example_options :: Web3FunctionRunnerOptions where
  "example_options =
     \<lparr>runtime = thread, memory = 134217728, timeout = 30000, rpcLimit = 100,
      requestLimit = 100, downloadLimit = 10485760, uploadLimit = 5242880, storageLimit = 1024\<rparr>"

text \<open>The reply of a guest that started from the empty storage and set \<open>k\<close> to \<open>v\<close>.\<close>

definition example_data :: sandbox_data where
  "example_data =
     \<lparr>data_result = JObj [(''canExec'', JBool False)],
      data_storage = \<lparr>state = ''updated'', storage_map = [(''k'', JStr ''v'')],
         storage_diff = [(''k'', JStr ''v'')]\<rparr>\<rparr>"

definition example_observed :: observed where
  "example_observed =
     \<lparr>obs_logs = [], obs_duration = 1,
      obs_rpcCalls = \<lparr>total_calls = 0, throttled_calls = 0\<rparr>,
      obs_network = \<lparr>nbRequests = 100, nbThrottled = 1, download = 1, upload = 0\<rparr>\<rparr>"

definition example_context :: Web3FunctionContextData where
  "example_context =
     \<lparr>gelatoArgs = [(''chainId'', JNum 1), (''gasPrice'', JStr ''10'')],
      userArgs = [], secrets = [], storage = [(''a'', JStr ''1'')],
      rpcProviderUrl = JStr ''http://127.0.0.1:8545'', log = JUndefined\<rparr>"

definition example_bn :: "jsval \<Rightarrow> jsval + int" where
  "example_bn v =
     (case v of
        JNum n \<Rightarrow> Inr n
      | JStr s \<Rightarrow> Inr 10
      | _ \<Rightarrow> Inl (mkError ''Error'' ''invalid BigNumber value''))"

section \<open>Notions used in the proofs\<close>

text \<open>What the facade leaves in the storage: strings, and \<open>undefined\<close> for a deleted key.\<close>

definition storage_value :: "jsval \<Rightarrow> bool" where
  "storage_value v = (typeof v = ''string'' \<or> v = JUndefined)"

text \<open>What \<open>diff\<close> decides for a key of the right object.\<close>

definition diff_decide :: "jsobj \<Rightarrow> jsobj \<Rightarrow> string \<Rightarrow> jsval option" where
  "diff_decide l r key =
     (if key \<notin> fst ` set l then Some (getprop r key)
      else if diff_value (getprop l key) (getprop r key) = JObj [] then None
      else Some (diff_value (getprop l key) (getprop r key)))"

text \<open>The throttle reasons that \<open>_runInSandbox\<close> itself gives to an error.\<close>

fun local_reason :: "error \<Rightarrow> bool" where
  "local_reason (Web3FunctionRuntimeError m r) = (r = R_duration \<or> r = R_memory \<or> r = R_rpcRequest)"
| "local_reason _ = True"

definition settled_ok :: "runner_state \<Rightarrow> bool" where
  "settled_ok st = (case settled st of Some (Inl e) \<Rightarrow> local_reason e | _ \<Rightarrow> True)"

text \<open>The events that neither settle the promise nor end the process.\<close>

fun inert :: "sandbox_event \<Rightarrow> bool" where
  "inert (UnknownEvent a) = True"
| "inert (MemorySample m) = True"
| "inert ev = False"





section \<open>Properties of the result validator\<close>

lemma hasOwnProperty_iff: "hasOwnProperty ps k \<longleftrightarrow> map_of ps k \<noteq> None"
  by (simp add: hasOwnProperty_def map_of_eq_None_iff)


text \<open>
  C8. A result object whose key \<open>canExec\<close> holds \<open>false\<close> is accepted whatever its
  \<open>callData\<close> is, or whether it has one, in both versions; a result object without the key
  \<open>canExec\<close> is refused with the error \<open>must return {canExec: bool}\<close>.
\<close>

theorem canExec_false_or_missing:
  "(map_of ps ''canExec'' = Some (JBool False) \<longrightarrow> validateResult pf version (JObj ps) = Inr ()) \<and>
   (\<not> hasOwnProperty ps ''canExec'' \<longrightarrow>
      validateResult pf version (JObj ps) = Inl (ResultError ''must return {canExec: bool}'' (JObj ps)))"
  by (simp add: validateObject_def hasOwnProperty_iff getprop_def Let_def throwError_def)

theorem canExec_false_or_missing_witness:
  "map_of [(''canExec'', JBool False), (''callData'', JNum 5)] ''canExec'' = Some (JBool False) \<and>
   validateResult example_platform V1_0_0 (JObj [(''canExec'', JBool False), (''callData'', JNum 5)]) = Inr () \<and>
   \<not> hasOwnProperty [(''callData'', JStr ''0x'')] ''canExec'' \<and>
   validateResult example_platform V2_0_0 (JObj [(''callData'', JStr ''0x'')]) =
     Inl (ResultError ''must return {canExec: bool}'' (JObj [(''callData'', JStr ''0x'')]))"
  using canExec_false_or_missing [of "[(''canExec'', JBool False), (''callData'', JNum 5)]" example_platform V1_0_0]
    canExec_false_or_missing [of "[(''callData'', JStr ''0x'')]" example_platform V2_0_0]
  by (simp add: hasOwnProperty_def)



text \<open>
  C3. The loop over a V2 \<open>callData\<close> tests \<open>value\<close> only when it is truthy, so an entry
  whose \<open>value\<close> is the empty string passes: the validator accepts this result.
\<close>

theorem v2_empty_value_accepted:
  "validateResult example_platform V2_0_0
     (JObj [(''canExec'', JBool True),
            (''callData'', JArr [JObj [(''to'', JStr ''0x0000000000000000000000000000000000000001''),
                                       (''data'', JStr ''0xdeadbeef''),
                                       (''value'', JStr [])]])]) = Inr ()"
  by (simp add: validateObject_def hasOwnProperty_def getprop_def example_platform_def)

section \<open>Properties of the guest agent\<close>

lemma map_of_obj_set: "map_of (obj_set ps k v) = (map_of ps)(k \<mapsto> v)"
  by (induction ps) (auto simp: fun_eq_iff)

lemma keys_obj_set: "fst ` set (obj_set ps k v) = insert k (fst ` set ps)"
  by (induction ps) auto

lemma list_all_obj_set: "list_all P ps \<Longrightarrow> P (k, v) \<Longrightarrow> list_all P (obj_set ps k v)"
  by (induction ps) auto

lemma exec_values:
  "exec p sec st = (out, st') \<Longrightarrow> list_all (\<lambda>p. storage_value (snd p)) st
     \<Longrightarrow> list_all (\<lambda>p. storage_value (snd p)) st'"
proof (induction p arbitrary: st)
  case (StorageGet k' f)
  from StorageGet.IH[OF rangeI, of "getprop st k'" st] StorageGet.prems show ?case by simp
next
  case (SecretsGet k' f)
  from SecretsGet.IH[OF rangeI, of "getprop sec k'" st] SecretsGet.prems show ?case by simp
next
  case (StorageSet k v p)
  show ?case
  proof (cases "typeof v = ''string''")
    case True
    with StorageSet.prems have "exec p sec (obj_set st k v) = (out, st')" by simp
    moreover have "list_all (\<lambda>p. storage_value (snd p)) (obj_set st k v)"
      using StorageSet.prems(2) True by (simp add: list_all_obj_set storage_value_def)
    ultimately show ?thesis by (rule StorageSet.IH)
  next
    case False
    with StorageSet.prems show ?thesis by simp
  qed
next
  case (StorageDelete k p)
  from StorageDelete.prems have "exec p sec (obj_set st k JUndefined) = (out, st')" by simp
  moreover have "list_all (\<lambda>p. storage_value (snd p)) (obj_set st k JUndefined)"
    using StorageDelete.prems(2) by (simp add: list_all_obj_set storage_value_def)
  ultimately show ?case by (rule StorageDelete.IH)
qed simp_all

lemma exec_keys:
  "exec p sec st = (out, st') \<Longrightarrow> k \<in> fst ` set st \<Longrightarrow> k \<in> fst ` set st'"
proof (induction p arbitrary: st)
  case (StorageGet k' f)
  from StorageGet.IH[OF rangeI, of "getprop st k'" st] StorageGet.prems show ?case by simp
next
  case (SecretsGet k' f)
  from SecretsGet.IH[OF rangeI, of "getprop sec k'" st] SecretsGet.prems show ?case by simp
next
  case (StorageSet k' v p)
  show ?case
  proof (cases "typeof v = ''string''")
    case True
    with StorageSet.prems have "exec p sec (obj_set st k' v) = (out, st')" by simp
    moreover have "k \<in> fst ` set (obj_set st k' v)"
      using StorageSet.prems(2) by (simp add: keys_obj_set)
    ultimately show ?thesis by (rule StorageSet.IH)
  next
    case False
    with StorageSet.prems show ?thesis by auto
  qed
next
  case (StorageDelete k' p)
  from StorageDelete.prems have "exec p sec (obj_set st k' JUndefined) = (out, st')" by simp
  moreover have "k \<in> fst ` set (obj_set st k' JUndefined)"
    using StorageDelete.prems(2) by (simp add: keys_obj_set)
  ultimately show ?case by (rule StorageDelete.IH)
qed auto

lemma fold_decide:
  "map_of (fold (\<lambda>key acc. case d key of None \<Rightarrow> acc | Some v \<Rightarrow> obj_set acc key v) ks acc) k =
     (if k \<in> set ks then (case d k of None \<Rightarrow> map_of acc k | Some v \<Rightarrow> Some v) else map_of acc k)"
  by (induction ks arbitrary: acc) (auto simp: map_of_obj_set split: option.splits)

lemma map_of_deletedValues:
  "map_of (deletedValues l r) k =
     (if k \<in> fst ` set l \<and> k \<notin> fst ` set r then Some JUndefined else None)"
proof -
  have "deletedValues l r =
      fold (\<lambda>key acc. case (if key \<in> fst ` set r then None else Some JUndefined) of
              None \<Rightarrow> acc | Some v \<Rightarrow> obj_set acc key v) (map fst l) []"
    unfolding deletedValues_def hasOwnProperty_def
    by (rule arg_cong[where f="\<lambda>f. fold f (map fst l) []"]) (auto simp: fun_eq_iff)
  then show ?thesis
    by (simp add: fold_decide)
qed

lemma diff_step_decide:
  "diff_step l r = (\<lambda>key acc. case diff_decide l r key of None \<Rightarrow> acc | Some v \<Rightarrow> obj_set acc key v)"
  by (auto simp: fun_eq_iff diff_step_def diff_decide_def Let_def hasOwnProperty_def)

lemma map_of_diff:
  "map_of (diff l r) k =
     (if k \<in> fst ` set r then diff_decide l r k
      else if k \<in> fst ` set l then Some JUndefined else None)"
  unfolding diff_def diff_step_decide
  by (simp add: fold_decide map_of_deletedValues split: option.splits)

lemma map_of_undefined_to_null:
  "map_of (undefined_to_null d) k = map_option (\<lambda>v. if v = JUndefined then JNull else v) (map_of d k)"
  unfolding undefined_to_null_def by (simp add: map_of_map)

lemma in_set_storage_value:
  "list_all (\<lambda>p. storage_value (snd p)) ps \<Longrightarrow> map_of ps k = Some v \<Longrightarrow> storage_value v"
  by (auto simp: list_all_iff dest!: map_of_SomeD)

lemma string_valued_lookup:
  "string_valued ps \<Longrightarrow> k \<in> fst ` set ps \<Longrightarrow> \<exists>s. map_of ps k = Some (JStr s)"
proof -
  assume sv: "string_valued ps" and k: "k \<in> fst ` set ps"
  then obtain v where v: "map_of ps k = Some v"
    by (metis map_of_eq_None_iff not_Some_eq)
  then have "(k, v) \<in> set ps" by (rule map_of_SomeD)
  with sv have "typeof v = ''string''" by (auto simp: string_valued_def list_all_iff)
  then obtain s where "v = JStr s" by (cases v) auto
  with v show ?thesis by simp
qed

lemma guest_run_Returned:
  assumes "guest_run bn onRun ctx = (Returned res, ctx')"
  shows "\<exists>p. exec p (secrets ctx) (storage ctx) = (Returned res, storage ctx')"
  using assms
  by (auto simp: guest_run_def Let_def split: option.splits sum.splits if_splits prod.splits)

lemma onFunctionEvent_result:
  assumes "onFunctionEvent bn onRun (Start ctx) = Returned (ResultReply res sd)"
  shows "\<exists>ctx'. guest_run bn onRun ctx = (Returned res, ctx') \<and>
           sd = \<lparr>state = (if undefined_to_null (diff (storage ctx) (storage ctx')) = [] then ''last'' else ''updated''),
                 storage_map = storage ctx',
                 storage_diff = undefined_to_null (diff (storage ctx) (storage ctx'))\<rparr>"
  using assms
  by (auto simp: onFunctionEvent_def Let_def split: prod.splits outcome.splits if_splits)

lemma diff_pointwise:
  assumes pre: "string_valued pre"
    and post: "list_all (\<lambda>p. storage_value (snd p)) post"
    and keys: "\<And>k. k \<in> fst ` set pre \<Longrightarrow> k \<in> fst ` set post"
  shows "map_of (undefined_to_null (diff pre post)) k =
     (case map_of post k of
        None \<Rightarrow> None
      | Some v \<Rightarrow> if map_of pre k = Some v then None
                 else Some (if v = JUndefined then JNull else v))"
proof (cases "map_of post k")
  case None
  then have "k \<notin> fst ` set post" by (simp add: map_of_eq_None_iff)
  moreover from this keys have "k \<notin> fst ` set pre" by blast
  ultimately show ?thesis using None
    by (simp add: map_of_undefined_to_null map_of_diff)
next
  case (Some v)
  then have kpost: "k \<in> fst ` set post" by (metis map_of_eq_None_iff option.distinct(1))
  from post Some have sv: "storage_value v" by (rule in_set_storage_value)
  then have vne: "v \<noteq> JObj []" by (auto simp: storage_value_def)
  show ?thesis
  proof (cases "k \<in> fst ` set pre")
    case True
    with pre obtain s where s: "map_of pre k = Some (JStr s)" by (blast dest: string_valued_lookup)
    show ?thesis using True s Some kpost vne
      by (auto simp: map_of_undefined_to_null map_of_diff diff_decide_def getprop_def diff_value_def)
  next
    case False
    then have "map_of pre k = None" by (simp add: map_of_eq_None_iff)
    then show ?thesis using False Some kpost
      by (simp add: map_of_undefined_to_null map_of_diff diff_decide_def getprop_def)
  qed
qed

text \<open>
  C1. When the guest run succeeds on a storage of strings, the reply's storage record has
  \<open>state = "updated"\<close> exactly when its difference is not empty; every key of the incoming
  storage that the supervisor no longer receives in the returned storage (its value is
  \<open>undefined\<close>) is in the difference with \<open>null\<close>; and the difference applied to the
  incoming storage, \<open>null\<close> deleting the key, is the returned storage as received.
\<close>

theorem storage_delta_of_result:
  assumes ev: "onFunctionEvent bn onRun (Start ctx) = Returned (ResultReply res sd)"
    and pre: "string_valued (storage ctx)"
  shows "((state sd = ''updated'') = (storage_diff sd \<noteq> [])) \<and>
     (\<forall>k. k \<in> fst ` set (storage ctx) \<and> wire (storage_map sd) k = None
          \<longrightarrow> map_of (storage_diff sd) k = Some JNull) \<and>
     apply_diff (wire (storage ctx)) (storage_diff sd) = wire (storage_map sd)"
proof -
  from onFunctionEvent_result[OF ev] obtain ctx' where
    run: "guest_run bn onRun ctx = (Returned res, ctx')" and
    sd: "sd = \<lparr>state = (if undefined_to_null (diff (storage ctx) (storage ctx')) = [] then ''last'' else ''updated''),
                 storage_map = storage ctx',
                 storage_diff = undefined_to_null (diff (storage ctx) (storage ctx'))\<rparr>"
    by blast
  from guest_run_Returned[OF run] obtain p where
    ex: "exec p (secrets ctx) (storage ctx) = (Returned res, storage ctx')" by blast
  have pre': "list_all (\<lambda>p. storage_value (snd p)) (storage ctx)"
    using pre by (auto simp: string_valued_def storage_value_def list_all_iff)
  have post: "list_all (\<lambda>p. storage_value (snd p)) (storage ctx')"
    using exec_values[OF ex pre'] .
  have keys: "\<And>k. k \<in> fst ` set (storage ctx) \<Longrightarrow> k \<in> fst ` set (storage ctx')"
    using exec_keys[OF ex] .
  note pw = diff_pointwise[OF pre post keys]
  have 1: "(state sd = ''updated'') = (storage_diff sd \<noteq> [])"
    by (simp add: sd)
  have 2: "map_of (storage_diff sd) k = Some JNull"
    if k: "k \<in> fst ` set (storage ctx)" and w: "wire (storage_map sd) k = None" for k
  proof -
    from pre k obtain s where s: "map_of (storage ctx) k = Some (JStr s)"
      by (blast dest: string_valued_lookup)
    from keys[OF k] obtain v where v: "map_of (storage ctx') k = Some v"
      by (metis map_of_eq_None_iff not_Some_eq)
    with w have "v = JUndefined" by (auto simp: wire_def sd split: if_splits)
    with v s show ?thesis by (simp add: sd pw)
  qed
  have 3: "apply_diff (wire (storage ctx)) (storage_diff sd) k = wire (storage_map sd) k" for k
  proof (cases "map_of (storage ctx') k")
    case None
    then have "k \<notin> fst ` set (storage ctx')" by (simp add: map_of_eq_None_iff)
    with keys have "k \<notin> fst ` set (storage ctx)" by blast
    then have "map_of (storage ctx) k = None" by (simp add: map_of_eq_None_iff)
    with None show ?thesis by (simp add: apply_diff_def wire_def sd pw)
  next
    case (Some v)
    from post Some have "storage_value v" by (rule in_set_storage_value)
    then have "v \<noteq> JNull" by (auto simp: storage_value_def)
    then show ?thesis using Some
      by (auto simp: apply_diff_def wire_def sd pw)
  qed
  from 1 2 3 show ?thesis by (auto simp: fun_eq_iff)
qed

lemma example_set_delete:
  "onFunctionEvent example_bn
     (Some (\<lambda>c. StorageSet ''k'' (JStr ''v'') (StorageDelete ''a'' (Return JNull))))
     (Start example_context) =
   Returned (ResultReply JNull
     \<lparr>state = ''updated'', storage_map = [(''a'', JUndefined), (''k'', JStr ''v'')],
      storage_diff = [(''a'', JNull), (''k'', JStr ''v'')]\<rparr>)"
  by (simp add: onFunctionEvent_def guest_run_def example_context_def example_bn_def getprop_def
      diff_def deletedValues_def diff_step_def diff_value_def hasOwnProperty_def
      undefined_to_null_def Let_def)

theorem storage_delta_of_result_witness:
  "string_valued (storage example_context) \<and>
   onFunctionEvent example_bn
     (Some (\<lambda>c. StorageSet ''k'' (JStr ''v'') (StorageDelete ''a'' (Return JNull))))
     (Start example_context) =
   Returned (ResultReply JNull
     \<lparr>state = ''updated'', storage_map = [(''a'', JUndefined), (''k'', JStr ''v'')],
      storage_diff = [(''a'', JNull), (''k'', JStr ''v'')]\<rparr>) \<and>
   ''a'' \<in> fst ` set (storage example_context) \<and>
   wire [(''a'', JUndefined), (''k'', JStr ''v'')] ''a'' = None \<and>
   map_of [(''a'', JNull), (''k'', JStr ''v'')] ''a'' = Some JNull \<and>
   apply_diff (wire (storage example_context)) [(''a'', JNull), (''k'', JStr ''v'')] =
     wire [(''a'', JUndefined), (''k'', JStr ''v'')]"
proof -
  have pre: "string_valued (storage example_context)"
    by (simp add: string_valued_def example_context_def)
  from storage_delta_of_result [OF example_set_delete pre] pre example_set_delete
  show ?thesis by (simp add: example_context_def wire_def)
qed






text \<open>The \<open>catch\<close> block on a thrown value that has properties: the error event carries the
  incoming storage, unchanged, and no difference.\<close>

lemma error_reply_of_throw:
  assumes "guest_run bn onRun ctx = (Thrown e, ctx')" and "e \<noteq> JNull" and "e \<noteq> JUndefined"
  shows "onFunctionEvent bn onRun (Start ctx) =
     Returned (ErrorReply (field e ''name'')
        (ToString (field e ''name'') @ '': '' @ ToString (field e ''message''))
        \<lparr>state = ''last'', storage_map = storage ctx, storage_diff = []\<rparr>)"
  using assms by (simp add: onFunctionEvent_def Let_def)

text \<open>
  C4. A handler that changes the storage and then throws \<open>undefined\<close> (a rejected promise
  with no reason): the \<open>catch\<close> block reads \<open>error.name\<close>, which raises, and
  \<open>_onFunctionEvent\<close> throws instead of returning the error event.
\<close>

theorem throw_undefined_no_error_event:
  "onFunctionEvent example_bn
     (Some (\<lambda>c. StorageSet ''k'' (JStr ''v'') (Throw JUndefined))) (Start example_context) =
   Thrown (mkError ''TypeError'' ''Cannot read properties'')"
  by (simp add: onFunctionEvent_def guest_run_def example_context_def example_bn_def getprop_def
      Let_def)

section \<open>Properties of the runner\<close>

lemma settle_ok: "settled_ok st \<Longrightarrow> (case x of Inl e \<Rightarrow> local_reason e | Inr d \<Rightarrow> True) \<Longrightarrow> settled_ok (settle x st)"
  by (auto simp: settled_ok_def settle_def split: option.splits sum.splits)

lemma settled_ok_update [simp]:
  "settled_ok (st\<lparr>isResolved := b\<rparr>) = settled_ok st"
  "settled_ok (st\<lparr>exitSignal := s\<rparr>) = settled_ok st"
  "settled_ok (st\<lparr>processEnded := b\<rparr>) = settled_ok st"
  "settled_ok (st\<lparr>rs_memory := m\<rparr>) = settled_ok st"
  by (simp_all add: settled_ok_def)

lemma local_reason_exit_error: "local_reason (exit_error options mem signal)"
  by (simp add: exit_error_def)

lemma on_event_ok: "settled_ok st \<Longrightarrow> settled_ok (on_event options ev st)"
  by (cases ev) (auto intro!: settle_ok simp: local_reason_exit_error split: option.splits)

lemma fold_on_event_ok: "settled_ok st \<Longrightarrow> settled_ok (fold (on_event options) evs st)"
  by (induction evs arbitrary: st) (simp_all add: on_event_ok)

lemma runInSandbox_reason:
  "runInSandbox options start events = (Some (Inl e), mem) \<Longrightarrow> local_reason e"
proof (cases start)
  case Started
  assume a: "runInSandbox options start events = (Some (Inl e), mem)"
  have "settled_ok (fold (on_event options) events initial_state)"
    by (rule fold_on_event_ok) (simp add: settled_ok_def initial_state_def)
  with a Started show ?thesis
    by (auto simp: runInSandbox_def Let_def settled_ok_def)
qed (auto simp: runInSandbox_def)

lemma isValidData_reason: "isValidData pf v = Inl e \<Longrightarrow> local_reason e"
  by (cases v) (auto split: if_splits)

lemma validateCallData_reason: "validateCallData pf r es = Inl e \<Longrightarrow> local_reason e"
  by (induction es) (auto simp: throwError_def dest: isValidData_reason split: if_splits sum.splits)

lemma validateResult_reason: "validateResult pf version r = Inl e \<Longrightarrow> local_reason e"
  by (cases r) (auto simp: validateObject_def Let_def throwError_def
      dest: isValidData_reason validateCallData_reason split: if_splits sum.splits jsval.splits)

lemma attempt_reason:
  "attempt pf version outcome = Inl e \<Longrightarrow> (\<And>e'. outcome = Inl e' \<Longrightarrow> local_reason e') \<Longrightarrow> local_reason e"
  by (auto simp: attempt_def with_size_def dest: validateResult_reason split: sum.splits option.splits)

lemma network_throttle_fields:
  "t_networkRequest (network_throttle options stats) = Some True \<longleftrightarrow>
     0 < nbThrottled stats \<and> requestLimit options \<le> of_nat (nbRequests stats)"
  "t_download (network_throttle options stats) = Some True \<longleftrightarrow>
     0 < nbThrottled stats \<and> downloadLimit options / 1024 \<le> download stats"
  "t_upload (network_throttle options stats) = Some True \<longleftrightarrow>
     0 < nbThrottled stats \<and> uploadLimit options / 1024 \<le> upload stats"
  "t_storage (network_throttle options stats) = None"
  by (simp_all add: network_throttle_def no_throttle_def)

lemma run_success:
  assumes "runInSandbox options start events = (Some outcome, mem)"
    and "attempt pf version outcome = Inr (result, s)"
  shows "run pf version options start events obs =
     Some \<lparr>exec_success = True, exec_version = version, exec_result = Some result,
        exec_storage = Some s, exec_error = None, exec_logs = obs_logs obs,
        exec_duration = obs_duration obs, exec_memory = mem / 1024 / 1024,
        exec_rpcCalls = obs_rpcCalls obs, exec_network = obs_network obs,
        exec_throttled =
          (if state s = ''updated''
           then (network_throttle options (obs_network obs))\<lparr>t_storage := Some (storageLimit options < storage_size s)\<rparr>
           else network_throttle options (obs_network obs))\<rparr>"
  using assms by (simp add: run_def Let_def)

lemma run_failure:
  assumes "runInSandbox options start events = (Some outcome, mem)"
    and "attempt pf version outcome = Inl err"
  shows "run pf version options start events obs =
     Some \<lparr>exec_success = False, exec_version = version, exec_result = None,
        exec_storage = None, exec_error = Some err, exec_logs = obs_logs obs,
        exec_duration = obs_duration obs, exec_memory = mem / 1024 / 1024,
        exec_rpcCalls = obs_rpcCalls obs, exec_network = obs_network obs,
        exec_throttled = error_throttle err (network_throttle options (obs_network obs))\<rparr>"
  using assms by (simp add: run_def Let_def)

lemma failure_throttled:
  assumes "local_reason err"
  shows "t_networkRequest (error_throttle err t) = t_networkRequest t"
    and "t_download (error_throttle err t) = t_download t"
    and "t_upload (error_throttle err t) = t_upload t"
    and "t_storage (error_throttle err t) = t_storage t"
  using assms by (cases err; auto)+

text \<open>
  C5. In every report of \<open>run\<close>, the flag \<open>networkRequest\<close> is true exactly when
  \<open>nbThrottled > 0\<close> and \<open>nbRequests >= requestLimit\<close>; \<open>download\<close> is true exactly when
  \<open>nbThrottled > 0\<close> and \<open>download >= downloadLimit / 1024\<close>, and \<open>upload\<close> likewise; and
  \<open>storage\<close> is true exactly when the run succeeded, the storage state is \<open>updated\<close> and
  the storage size is above \<open>storageLimit\<close>.
\<close>

theorem throttle_flags:
  assumes "run pf version options start events obs = Some rep"
  shows "(t_networkRequest (exec_throttled rep) = Some True \<longleftrightarrow>
            0 < nbThrottled (exec_network rep) \<and> requestLimit options \<le> of_nat (nbRequests (exec_network rep))) \<and>
         (t_download (exec_throttled rep) = Some True \<longleftrightarrow>
            0 < nbThrottled (exec_network rep) \<and> downloadLimit options / 1024 \<le> download (exec_network rep)) \<and>
         (t_upload (exec_throttled rep) = Some True \<longleftrightarrow>
            0 < nbThrottled (exec_network rep) \<and> uploadLimit options / 1024 \<le> upload (exec_network rep)) \<and>
         (t_storage (exec_throttled rep) = Some True \<longleftrightarrow>
            exec_success rep \<and>
            (\<exists>s. exec_storage rep = Some s \<and> state s = ''updated'' \<and> storageLimit options < storage_size s))"
proof -
  from assms obtain outcome mem where
    ris: "runInSandbox options start events = (Some outcome, mem)"
    by (auto simp: run_def split: prod.splits option.splits)
  show ?thesis
  proof (cases "attempt pf version outcome")
    case (Inr p)
    obtain result s where p: "p = (result, s)" by (cases p)
    from run_success[OF ris Inr[unfolded p], of obs] assms
    have rep: "rep = \<lparr>exec_success = True, exec_version = version, exec_result = Some result,
        exec_storage = Some s, exec_error = None, exec_logs = obs_logs obs,
        exec_duration = obs_duration obs, exec_memory = mem / 1024 / 1024,
        exec_rpcCalls = obs_rpcCalls obs, exec_network = obs_network obs,
        exec_throttled =
          (if state s = ''updated''
           then (network_throttle options (obs_network obs))\<lparr>t_storage := Some (storageLimit options < storage_size s)\<rparr>
           else network_throttle options (obs_network obs))\<rparr>" by simp
    show ?thesis unfolding rep by (simp add: network_throttle_fields)
  next
    case (Inl err)
    have lr: "local_reason err"
      using Inl runInSandbox_reason[of options start events _ mem] ris
      by (auto intro: attempt_reason)
    from run_failure[OF ris Inl, of obs] assms
    have rep: "rep = \<lparr>exec_success = False, exec_version = version, exec_result = None,
        exec_storage = None, exec_error = Some err, exec_logs = obs_logs obs,
        exec_duration = obs_duration obs, exec_memory = mem / 1024 / 1024,
        exec_rpcCalls = obs_rpcCalls obs, exec_network = obs_network obs,
        exec_throttled = error_throttle err (network_throttle options (obs_network obs))\<rparr>" by simp
    show ?thesis unfolding rep
      by (simp add: failure_throttled[OF lr] network_throttle_fields)
  qed
qed

lemma run_example:
  "run example_platform V2_0_0 example_options Started [ResultEvent example_data] example_observed =
   Some \<lparr>exec_success = True, exec_version = V2_0_0,
      exec_result = Some (JObj [(''canExec'', JBool False)]),
      exec_storage = Some \<lparr>state = ''updated'', storage_map = [(''k'', JStr ''v'')],
            storage_diff = [(''k'', JStr ''v'')], storage_size = 56 / 1024\<rparr>,
      exec_error = None, exec_logs = [], exec_duration = 1, exec_memory = 0,
      exec_rpcCalls = \<lparr>total_calls = 0, throttled_calls = 0\<rparr>,
      exec_network = \<lparr>nbRequests = 100, nbThrottled = 1, download = 1, upload = 0\<rparr>,
      exec_throttled = \<lparr>t_duration = None, t_memory = None, t_rpcRequest = None,
         t_networkRequest = Some True, t_download = Some False, t_upload = Some False,
         t_storage = Some False\<rparr>\<rparr>"
  by (simp add: run_def runInSandbox_def initial_state_def settle_def attempt_def example_data_def
     example_platform_def example_options_def example_observed_def validateObject_def hasOwnProperty_def
     getprop_def with_size_def storage_to_js_def quote_def quote_char_def byteLength_def
     network_throttle_def no_throttle_def Let_def)

theorem throttle_flags_witness:
  "run example_platform V2_0_0 example_options Started [ResultEvent example_data] example_observed =
   Some \<lparr>exec_success = True, exec_version = V2_0_0,
      exec_result = Some (JObj [(''canExec'', JBool False)]),
      exec_storage = Some \<lparr>state = ''updated'', storage_map = [(''k'', JStr ''v'')],
            storage_diff = [(''k'', JStr ''v'')], storage_size = 56 / 1024\<rparr>,
      exec_error = None, exec_logs = [], exec_duration = 1, exec_memory = 0,
      exec_rpcCalls = \<lparr>total_calls = 0, throttled_calls = 0\<rparr>,
      exec_network = \<lparr>nbRequests = 100, nbThrottled = 1, download = 1, upload = 0\<rparr>,
      exec_throttled = \<lparr>t_duration = None, t_memory = None, t_rpcRequest = None,
         t_networkRequest = Some True, t_download = Some False, t_upload = Some False,
         t_storage = Some False\<rparr>\<rparr> \<and>
   (0::nat) < 1 \<and> requestLimit example_options \<le> of_nat 100 \<and>
   \<not> downloadLimit example_options / 1024 \<le> 1 \<and>
   \<not> storageLimit example_options < 56 / 1024"
  using throttle_flags [OF run_example] run_example
  by (simp add: example_options_def)

lemma on_event_inert:
  "inert ev \<Longrightarrow>
     isResolved (on_event options ev st) = isResolved st \<and>
     settled (on_event options ev st) = settled st \<and>
     exitSignal (on_event options ev st) = exitSignal st \<and>
     processEnded (on_event options ev st) = processEnded st"
  by (cases ev) simp_all

lemma fold_inert:
  "list_all inert evs \<Longrightarrow>
     isResolved (fold (on_event options) evs st) = isResolved st \<and>
     settled (fold (on_event options) evs st) = settled st \<and>
     exitSignal (fold (on_event options) evs st) = exitSignal st \<and>
     processEnded (fold (on_event options) evs st) = processEnded st"
  by (induction evs arbitrary: st) (simp_all add: on_event_inert)

lemma settle_settled: "settled st = Some x \<Longrightarrow> settled (settle y st) = Some x"
  by (simp add: settle_def)

lemma on_event_settled: "settled st = Some x \<Longrightarrow> settled (on_event options ev st) = Some x"
  by (cases ev) (auto simp: settle_def split: option.splits)

lemma fold_settled: "settled st = Some x \<Longrightarrow> settled (fold (on_event options) evs st) = Some x"
  by (induction evs arbitrary: st) (simp_all add: on_event_settled)

lemma exit_250_settles:
  assumes "list_all inert pre" and "list_all inert mid"
  shows "\<exists>message. settled (fold (on_event options) (pre @ ProcessEnd 250 # mid @ DelayElapsed # post) initial_state)
     = Some (Inl (Web3FunctionRuntimeError message R_rpcRequest))"
proof -
  define s1 where "s1 = fold (on_event options) pre initial_state"
  define s2 where "s2 = on_event options (ProcessEnd 250) s1"
  define s3 where "s3 = fold (on_event options) mid s2"
  define s4 where "s4 = on_event options DelayElapsed s3"
  from fold_inert[OF assms(1), of options initial_state]
  have 1: "\<not> isResolved s1" "settled s1 = None" "\<not> processEnded s1"
    by (simp_all add: s1_def initial_state_def)
  then have 2: "\<not> isResolved s2" "settled s2 = None" "exitSignal s2 = Some 250"
    by (simp_all add: s2_def)
  with fold_inert[OF assms(2), of options s2]
  have 3: "\<not> isResolved s3" "settled s3 = None" "exitSignal s3 = Some 250"
    by (simp_all add: s3_def)
  then have 4: "settled s4 = Some (Inl (exit_error options (rs_memory s3) 250))"
    by (simp add: s4_def settle_def)
  have "fold (on_event options) (pre @ ProcessEnd 250 # mid @ DelayElapsed # post) initial_state
      = fold (on_event options) post s4"
    by (simp add: s1_def s2_def s3_def s4_def)
  with fold_settled[OF 4, of options post] show ?thesis
    by (simp add: exit_error_def)
qed

text \<open>
  C6, as the code has it. When the sandbox process ends with code 250 and, until the
  delay that follows the end has elapsed, no result event, no error event and no
  execution timeout occurs, \<open>run\<close> returns a report with \<open>success = false\<close> and
  \<open>throttled.rpcRequest = true\<close>.
\<close>

theorem exit_250_rpc_throttled:
  assumes "list_all inert pre" and "list_all inert mid"
  shows "\<exists>rep. run pf version options Started (pre @ ProcessEnd 250 # mid @ DelayElapsed # post) obs = Some rep
           \<and> \<not> exec_success rep \<and> t_rpcRequest (exec_throttled rep) = Some True"
proof -
  from exit_250_settles[OF assms, of options post] obtain message where
    "settled (fold (on_event options) (pre @ ProcessEnd 250 # mid @ DelayElapsed # post) initial_state)
     = Some (Inl (Web3FunctionRuntimeError message R_rpcRequest))" by blast
  then show ?thesis
    by (simp add: run_def runInSandbox_def Let_def attempt_def)
qed

theorem exit_250_rpc_throttled_witness:
  "list_all inert [MemorySample 5] \<and> list_all inert [UnknownEvent ''ping''] \<and>
   (\<exists>rep. run example_platform V2_0_0 example_options Started
        ([MemorySample 5] @ ProcessEnd 250 # [UnknownEvent ''ping''] @ DelayElapsed # [ExecTimeout])
        example_observed = Some rep
      \<and> \<not> exec_success rep \<and> t_rpcRequest (exec_throttled rep) = Some True)"
proof -
  have 1: "list_all inert [MemorySample 5]" and 2: "list_all inert [UnknownEvent ''ping'']"
    by simp_all
  from exit_250_rpc_throttled [OF 1 2] 1 2 show ?thesis by blast
qed

text \<open>
  C6, as stated, fails: the process ends with code 250, no result is ever received, and
  the execution timeout fires while the delay is running. The timeout settles the run,
  so the report has \<open>throttled.duration = true\<close> and no \<open>rpcRequest\<close> flag.
\<close>

theorem exit_250_timeout_in_delay:
  "map_option (\<lambda>rep. (exec_success rep, t_duration (exec_throttled rep), t_rpcRequest (exec_throttled rep)))
     (run example_platform V2_0_0 example_options Started
        [ProcessEnd 250, ExecTimeout, DelayElapsed] example_observed)
   = Some (False, Some True, None)"
  by (simp add: run_def runInSandbox_def initial_state_def settle_def attempt_def
     example_options_def example_observed_def network_throttle_def no_throttle_def Let_def)

text \<open>
  C7. The size is taken of the whole storage record of the reply, with its state and its
  difference, not of the storage map: for the reply whose storage map is \<open>{"k": "v"}\<close>
  (9 bytes as JSON) the report's size is 56 / 1024.
\<close>

theorem storage_size_of_whole_record:
  "map_option (\<lambda>rep. map_option storage_size (exec_storage rep))
     (run example_platform V2_0_0 example_options Started [ResultEvent example_data] example_observed)
     = Some (Some (56 / 1024)) \<and>
   map_option byteLength (stringify (JObj (storage_map (data_storage example_data)))) = Some 9"
proof -
  have "map_option (\<lambda>rep. map_option storage_size (exec_storage rep))
     (run example_platform V2_0_0 example_options Started [ResultEvent example_data] example_observed)
     = Some (Some (56 / 1024))"
    by (simp add: run_example)
  moreover have
    "map_option byteLength (stringify (JObj (storage_map (data_storage example_data)))) = Some 9"
    by (simp add: example_data_def quote_def quote_char_def byteLength_def)
  ultimately show ?thesis by (rule conjI)
qed

section \<open>Properties of the user arguments\<close>

subsection \<open>Numbers\<close>















subsection \<open>Strings\<close>






subsection \<open>Values\<close>
















subsection \<open>\<open>parseUserArgs\<close> after the stringification\<close>
















end
